theory Spec2Isabelle
  imports Main
begin

section \<open>Python values\<close>

text \<open>
  The module is dynamically typed: keyword arguments, decoded JSON bodies and the operands
  of the \<open>%\<close> operator are arbitrary Python values. Strings are lists of code points
  below 256. A finite float is kept as sign, mantissa and binary exponent, so that
  truncation and the comparison with zero are exact.
\<close>

record datetime =
  year :: nat
  month :: nat
  day :: nat
  hour :: nat
  minute :: nat
  second :: nat
  microsecond :: nat
  utcoffset :: "int option"  \<comment> \<open>offset of an aware value, in microseconds\<close>

datatype pyfloat = Finite bool nat int | NaN | Infinity bool

datatype pyval =
    PNone
  | PBool bool
  | PInt int
  | PFloat pyfloat
  | PStr string
  | PList "pyval list"
  | PTuple "pyval list"
  | PDict "(string \<times> pyval) list"
  | PDatetime datetime
  | PObject string  \<comment> \<open>an instance of any other class, named by its class\<close>

text \<open>
  \<open>NumericError\<close> and \<open>ErrorMessage\<close> are the module's own exception classes; each
  stores one attribute, \<open>message\<close>. The others are raised by the interpreter, by the
  JSON decoder and by the HTTP library.
\<close>

datatype exception =
    ErrorMessage string
  | NumericError string
  | TypeError
  | KeyError string
  | IndexError
  | ValueError
  | OverflowError
  | JSONDecodeError
  | RequestException string

subsection \<open>Decimal rendering of integers\<close>

text \<open>
  \<open>str\<close> and \<open>%d\<close> on an int: the decimal digits, with a minus sign for a negative
  number. The interpreter's configurable bound on the number of digits of such a
  conversion is left out; the device number is documented as 0 to 4294967295.
\<close>

definition digit_char :: "nat \<Rightarrow> char" where
  "digit_char d = char_of (48 + d)"

fun nat_digits :: "nat \<Rightarrow> string" where
  "nat_digits n = (if n < 10 then [digit_char n] else nat_digits (n div 10) @ [digit_char (n mod 10)])"

declare nat_digits.simps [simp del]

definition int_str :: "int \<Rightarrow> string" where
  "int_str i = (if i < 0 then CHR ''-'' # nat_digits (nat (- i)) else nat_digits (nat i))"

subsection \<open>The \<open>%\<close> operator on strings\<close>

definition float_trunc :: "pyfloat \<Rightarrow> exception + int" where
  "float_trunc f =
     (case f of
        Finite neg m e \<Rightarrow>
          (let a = (if 0 \<le> e then int m * 2 ^ nat e else int m div 2 ^ nat (- e))
           in Inr (if neg then - a else a))
      | NaN \<Rightarrow> Inl ValueError
      | Infinity _ \<Rightarrow> Inl OverflowError)"

definition percent_d :: "pyval \<Rightarrow> exception + string" where
  "percent_d v =
     (case v of
        PInt i \<Rightarrow> Inr (int_str i)
      | PBool b \<Rightarrow> Inr (if b then ''1'' else ''0'')
      | PFloat f \<Rightarrow> (case float_trunc f of Inl e \<Rightarrow> Inl e | Inr i \<Rightarrow> Inr (int_str i))
      | _ \<Rightarrow> Inl TypeError)"

text \<open>
  \<open>%s\<close> applies \<open>str\<close>. On a string it is the identity; on \<open>None\<close>, a bool and an
  int it is fixed by the language; for every other value (floats, containers, user classes)
  the rendering is the parameter \<open>sf\<close>.
\<close>

definition percent_s :: "(pyval \<Rightarrow> string) \<Rightarrow> pyval \<Rightarrow> string" where
  "percent_s sf v =
     (case v of
        PStr s \<Rightarrow> s
      | PNone \<Rightarrow> ''None''
      | PBool b \<Rightarrow> (if b then ''True'' else ''False'')
      | PInt i \<Rightarrow> int_str i
      | _ \<Rightarrow> sf v)"

definition prepend :: "string \<Rightarrow> exception + string \<Rightarrow> exception + string" where
  "prepend s r = (case r of Inl e \<Rightarrow> Inl e | Inr t \<Rightarrow> Inr (s @ t))"

text \<open>
  \<open>fmt % args\<close> with a tuple on the right. The module's format literals use only the
  directives \<open>%s\<close> and \<open>%d\<close>; \<open>%%\<close> is the literal percent sign, and any other
  character after \<open>%\<close> is taken as an unsupported directive. Too few arguments, an
  argument of the wrong type for \<open>%d\<close> and arguments left over are each a TypeError.
\<close>

fun py_format :: "(pyval \<Rightarrow> string) \<Rightarrow> string \<Rightarrow> pyval list \<Rightarrow> exception + string" where
  "py_format sf [] args = (if args = [] then Inr [] else Inl TypeError)"
| "py_format sf [c] args =
     (if c = CHR ''%'' then Inl ValueError else prepend [c] (py_format sf [] args))"
| "py_format sf (c # d # cs) args =
     (if c \<noteq> CHR ''%'' then prepend [c] (py_format sf (d # cs) args)
      else if d = CHR ''%'' then prepend ''%'' (py_format sf cs args)
      else if d = CHR ''s'' then
        (case args of
           [] \<Rightarrow> Inl TypeError
         | a # as \<Rightarrow> prepend (percent_s sf a) (py_format sf cs as))
      else if d = CHR ''d'' then
        (case args of
           [] \<Rightarrow> Inl TypeError
         | a # as \<Rightarrow>
             (case percent_d a of
                Inl e \<Rightarrow> Inl e
              | Inr s \<Rightarrow> prepend s (py_format sf cs as)))
      else Inl ValueError)"

declare py_format.simps [simp del]

section \<open>Device: the identity and its base address\<close>

record device =
  address :: string
  device_type :: string
  device_number :: int
  api_version :: int
  base_url :: string

definition DEFAULT_API_VERSION :: int where
  "DEFAULT_API_VERSION = 1"

definition Device_init ::
  "(pyval \<Rightarrow> string) \<Rightarrow> string \<Rightarrow> string \<Rightarrow> int \<Rightarrow> string \<Rightarrow> int \<Rightarrow> exception + device" where
  "Device_init sf addr dtype dnum protocall version =
     (case py_format sf ''%s://%s/api/v%d/%s/%d''
             [PStr protocall, PStr addr, PInt version, PStr dtype, PInt dnum] of
        Inl e \<Rightarrow> Inl e
      | Inr u \<Rightarrow>
          Inr \<lparr>address = addr, device_type = dtype, device_number = dnum,
               api_version = version, base_url = u\<rparr>)"

section \<open>The HTTP exchange\<close>

text \<open>
  A request is what the module hands to the HTTP library: the verb, the URL and the two
  keyword arguments of \<open>requests.get\<close> / \<open>requests.put\<close>. \<open>req_params\<close> is the
  library's \<open>params\<close> argument (appended to the URL as its query string),
  \<open>req_data\<close> its \<open>data\<close> argument (form-encoded into the body of the request).
  An argument that the call does not pass is \<open>None\<close>.
\<close>

datatype http_method = GET | PUT

record request =
  req_method :: http_method
  req_url :: string
  req_params :: "(string \<times> pyval) list option"
  req_data :: "(string \<times> pyval) list option"

text \<open>
  A response carries the status code, the body text (\<open>response.text\<close>) and the outcome
  of \<open>response.json()\<close>: the decoded value, or \<open>None\<close> when the body is not JSON and the
  call raises.
\<close>

record response =
  status_code :: int
  resp_text :: string
  resp_json :: "pyval option"

text \<open>
  The remote side is a transition function on a state of its own: it answers a request
  with a response, or the library raises (no connection, timeout). The network records
  every request that was issued.
\<close>

type_synonym 'st transport = "request \<Rightarrow> 'st \<Rightarrow> (exception + response) \<times> 'st"

record 'st net =
  remote :: 'st
  sent :: "request list"

definition requests_request ::
  "'st transport \<Rightarrow> request \<Rightarrow> 'st net \<Rightarrow> (exception + response) \<times> 'st net" where
  "requests_request tr rq w =
     (case tr rq (remote w) of
        (r, s') \<Rightarrow> (r, \<lparr>remote = s', sent = sent w @ [rq]\<rparr>))"

definition requests_get ::
  "'st transport \<Rightarrow> string \<Rightarrow> (string \<times> pyval) list \<Rightarrow> 'st net
     \<Rightarrow> (exception + response) \<times> 'st net" where
  "requests_get tr u d w =
     requests_request tr \<lparr>req_method = GET, req_url = u, req_params = None, req_data = Some d\<rparr> w"

definition requests_put ::
  "'st transport \<Rightarrow> string \<Rightarrow> (string \<times> pyval) list \<Rightarrow> 'st net
     \<Rightarrow> (exception + response) \<times> 'st net" where
  "requests_put tr u d w =
     requests_request tr \<lparr>req_method = PUT, req_url = u, req_params = None, req_data = Some d\<rparr> w"

definition response_json :: "response \<Rightarrow> exception + pyval" where
  "response_json r = (case resp_json r of None \<Rightarrow> Inl JSONDecodeError | Some j \<Rightarrow> Inr j)"

text \<open>\<open>j[key]\<close> with a string key: only a dict can be subscripted that way.\<close>

definition subscript :: "pyval \<Rightarrow> string \<Rightarrow> exception + pyval" where
  "subscript j k =
     (case j of
        PDict kvs \<Rightarrow> (case map_of kvs k of None \<Rightarrow> Inl (KeyError k) | Some v \<Rightarrow> Inr v)
      | _ \<Rightarrow> Inl TypeError)"

text \<open>\<open>x != 0\<close>: numbers compare by value (\<open>False\<close> is 0), anything else differs from 0.\<close>

definition ne_zero :: "pyval \<Rightarrow> bool" where
  "ne_zero v =
     (case v of
        PInt i \<Rightarrow> i \<noteq> 0
      | PBool b \<Rightarrow> b
      | PFloat f \<Rightarrow> (case f of Finite _ m _ \<Rightarrow> m \<noteq> 0 | _ \<Rightarrow> True)
      | _ \<Rightarrow> True)"

section \<open>The exception classes\<close>

definition ErrorMessage_init :: "string \<Rightarrow> exception" where
  "ErrorMessage_init v = ErrorMessage v"

definition NumericError_init :: "(pyval \<Rightarrow> string) \<Rightarrow> pyval \<Rightarrow> pyval \<Rightarrow> exception + exception" where
  "NumericError_init sf num msg =
     (case py_format sf ''Error %d: %s'' [num, msg] of
        Inl e \<Rightarrow> Inl e
      | Inr m \<Rightarrow> Inr (NumericError m))"

section \<open>The request executor\<close>

definition Device_check_error :: "(pyval \<Rightarrow> string) \<Rightarrow> response \<Rightarrow> exception + unit" where
  "Device_check_error sf r =
     (if status_code r = 400 \<or> status_code r = 500 then Inl (ErrorMessage_init (resp_text r))
      else if status_code r = 200 then
        (case response_json r of
           Inl e \<Rightarrow> Inl e
         | Inr j \<Rightarrow>
             (case subscript j ''ErrorNumber'' of
                Inl e \<Rightarrow> Inl e
              | Inr n \<Rightarrow>
                  if ne_zero n then
                    (case subscript j ''ErrorMessage'' of
                       Inl e \<Rightarrow> Inl e
                     | Inr m \<Rightarrow>
                         (case NumericError_init sf n m of
                            Inl e \<Rightarrow> Inl e
                          | Inr exc \<Rightarrow> Inl exc))
                  else Inr ()))
      else Inr ())"

definition Device_get ::
  "'st transport \<Rightarrow> (pyval \<Rightarrow> string) \<Rightarrow> device \<Rightarrow> string \<Rightarrow> (string \<times> pyval) list
     \<Rightarrow> 'st net \<Rightarrow> (exception + pyval) \<times> 'st net" where
  "Device_get tr sf self attribute kwargs w =
     (case py_format sf ''%s/%s'' [PStr (base_url self), PStr attribute] of
        Inl e \<Rightarrow> (Inl e, w)
      | Inr u \<Rightarrow>
          (case requests_get tr u kwargs w of
             (Inl e, w') \<Rightarrow> (Inl e, w')
           | (Inr r, w') \<Rightarrow>
               (case Device_check_error sf r of
                  Inl e \<Rightarrow> (Inl e, w')
                | Inr _ \<Rightarrow>
                    (case response_json r of
                       Inl e \<Rightarrow> (Inl e, w')
                     | Inr j \<Rightarrow> (subscript j ''Value'', w')))))"

definition Device_put ::
  "'st transport \<Rightarrow> (pyval \<Rightarrow> string) \<Rightarrow> device \<Rightarrow> string \<Rightarrow> (string \<times> pyval) list
     \<Rightarrow> 'st net \<Rightarrow> (exception + pyval) \<times> 'st net" where
  "Device_put tr sf self attribute kwargs w =
     (case py_format sf ''%s/%s'' [PStr (base_url self), PStr attribute] of
        Inl e \<Rightarrow> (Inl e, w)
      | Inr u \<Rightarrow>
          (case requests_put tr u kwargs w of
             (Inl e, w') \<Rightarrow> (Inl e, w')
           | (Inr r, w') \<Rightarrow>
               (case Device_check_error sf r of
                  Inl e \<Rightarrow> (Inl e, w')
                | Inr _ \<Rightarrow> (response_json r, w'))))"

subsection \<open>Accessors of every device\<close>

definition Description ::
  "'st transport \<Rightarrow> (pyval \<Rightarrow> string) \<Rightarrow> device \<Rightarrow> 'st net \<Rightarrow> (exception + pyval) \<times> 'st net" where
  "Description tr sf self w = Device_get tr sf self ''name'' [] w"

definition Name ::
  "'st transport \<Rightarrow> (pyval \<Rightarrow> string) \<Rightarrow> device \<Rightarrow> 'st net \<Rightarrow> (exception + pyval) \<times> 'st net" where
  "Name tr sf self w = Device_get tr sf self ''name'' [] w"

subsection \<open>Telescope: the UTC clock\<close>

text \<open>\<open>"%0wd" % n\<close> for a non-negative \<open>n\<close>: decimal digits, padded with zeros on the left
  to width \<open>w\<close>.\<close>

definition zpad :: "nat \<Rightarrow> nat \<Rightarrow> string" where
  "zpad w n = replicate (w - length (nat_digits n)) CHR ''0'' @ nat_digits n"

definition format_time :: "datetime \<Rightarrow> string" where
  "format_time d =
     zpad 2 (hour d) @ '':'' @ zpad 2 (minute d) @ '':'' @ zpad 2 (second d)
       @ (if microsecond d \<noteq> 0 then ''.'' @ zpad 6 (microsecond d) else [])"

definition format_offset :: "int option \<Rightarrow> string" where
  "format_offset off =
     (case off of
        None \<Rightarrow> []
      | Some x \<Rightarrow>
          (let a = nat \<bar>x\<bar>;
               hh = a div 3600000000;
               mm = (a mod 3600000000) div 60000000;
               ss = (a mod 3600000000) mod 60000000
           in (if x < 0 then ''-'' else ''+'') @ zpad 2 hh @ '':'' @ zpad 2 mm
                @ (if ss \<noteq> 0 then
                     '':'' @ zpad 2 (ss div 1000000)
                       @ (if ss mod 1000000 \<noteq> 0 then ''.'' @ zpad 6 (ss mod 1000000) else [])
                   else [])))"

text \<open>\<open>datetime.isoformat()\<close> with its default separator and precision.\<close>

definition isoformat :: "datetime \<Rightarrow> string" where
  "isoformat d =
     zpad 4 (year d) @ ''-'' @ zpad 2 (month d) @ ''-'' @ zpad 2 (day d) @ ''T''
       @ format_time d @ format_offset (utcoffset d)"

text \<open>
  The setter tests the exact type of its argument (\<open>type(x) is str\<close>,
  \<open>type(x) is datetime\<close>), so an instance of a subclass is an \<open>PObject\<close> and is refused.
\<close>

definition Telescope_UTCDate_set ::
  "'st transport \<Rightarrow> (pyval \<Rightarrow> string) \<Rightarrow> device \<Rightarrow> pyval \<Rightarrow> 'st net
     \<Rightarrow> (exception + unit) \<times> 'st net" where
  "Telescope_UTCDate_set tr sf self UTCDate w =
     (case (case UTCDate of
              PStr s \<Rightarrow> Inr s
            | PDatetime d \<Rightarrow> Inr (isoformat d)
            | _ \<Rightarrow> Inl TypeError) of
        Inl e \<Rightarrow> (Inl e, w)
      | Inr dat \<Rightarrow>
          (case Device_put tr sf self ''utcdate'' [(''UTCDate'', PStr dat)] w of
             (Inl e, w') \<Rightarrow> (Inl e, w')
           | (Inr _, w') \<Rightarrow> (Inr (), w')))"

section \<open>The device classes and the factory\<close>

datatype device_class =
  Switch | SafetyMonitor | Dome | Camera | FilterWheel | Telescope | Rotator | Focuser

text \<open>The name each class is bound to in the module.\<close>

fun class_name :: "device_class \<Rightarrow> string" where
  "class_name Switch = ''Switch''"
| "class_name SafetyMonitor = ''SafetyMonitor''"
| "class_name Dome = ''Dome''"
| "class_name Camera = ''Camera''"
| "class_name FilterWheel = ''FilterWheel''"
| "class_name Telescope = ''Telescope''"
| "class_name Rotator = ''Rotator''"
| "class_name Focuser = ''Focuser''"

text \<open>The device type each class passes to the constructor of \<open>Device\<close>.\<close>

fun category :: "device_class \<Rightarrow> string" where
  "category Switch = ''switch''"
| "category SafetyMonitor = ''safetymonitor''"
| "category Dome = ''dome''"
| "category Camera = ''camera''"
| "category FilterWheel = ''filterwheel''"
| "category Telescope = ''telescope''"
| "category Rotator = ''rotator''"
| "category Focuser = ''focuser''"

definition facade_init ::
  "(pyval \<Rightarrow> string) \<Rightarrow> device_class \<Rightarrow> string \<Rightarrow> int \<Rightarrow> string \<Rightarrow> int \<Rightarrow> exception + device" where
  "facade_init sf cls addr dnum protocall version =
     Device_init sf addr (category cls) dnum protocall version"

datatype pyobject = Instance device_class device | ExceptionObject exception

subsection \<open>\<open>str.split\<close> and \<open>int\<close>\<close>

fun split_sep :: "char \<Rightarrow> string \<Rightarrow> string list" where
  "split_sep sep [] = [[]]"
| "split_sep sep (c # cs) =
     (if c = sep then [] # split_sep sep cs
      else (case split_sep sep cs of
              [] \<Rightarrow> [[c]]
            | p # ps \<Rightarrow> (c # p) # ps))"

definition is_space :: "char \<Rightarrow> bool" where
  "is_space c =
     (let k = (of_char c :: nat)
      in (9 \<le> k \<and> k \<le> 13) \<or> (28 \<le> k \<and> k \<le> 32) \<or> k = 133 \<or> k = 160)"

definition is_digit :: "char \<Rightarrow> bool" where
  "is_digit c = (48 \<le> (of_char c :: nat) \<and> (of_char c :: nat) \<le> 57)"

definition digit_val :: "char \<Rightarrow> nat" where
  "digit_val c = of_char c - 48"

definition strip :: "string \<Rightarrow> string" where
  "strip s = rev (dropWhile is_space (rev (dropWhile is_space s)))"

text \<open>Digits after the first one; a single underscore may stand between two digits.\<close>

fun parse_rest :: "nat \<Rightarrow> string \<Rightarrow> nat option" where
  "parse_rest acc [] = Some acc"
| "parse_rest acc [c] = (if is_digit c then Some (10 * acc + digit_val c) else None)"
| "parse_rest acc (c # d # cs) =
     (if is_digit c then parse_rest (10 * acc + digit_val c) (d # cs)
      else if c = CHR ''_'' \<and> is_digit d then parse_rest (10 * acc + digit_val d) cs
      else None)"

definition parse_nat :: "string \<Rightarrow> nat option" where
  "parse_nat s =
     (case s of
        [] \<Rightarrow> None
      | c # cs \<Rightarrow> if is_digit c then parse_rest (digit_val c) cs else None)"

text \<open>\<open>int(s)\<close> on a string, base ten: surrounding white space, one optional sign, digits.\<close>

definition py_int :: "string \<Rightarrow> exception + int" where
  "py_int s =
     (case strip s of
        [] \<Rightarrow> Inl ValueError
      | c # cs \<Rightarrow>
          if c = CHR ''-'' then
            (case parse_nat cs of None \<Rightarrow> Inl ValueError | Some n \<Rightarrow> Inr (- int n))
          else if c = CHR ''+'' then
            (case parse_nat cs of None \<Rightarrow> Inl ValueError | Some n \<Rightarrow> Inr (int n))
          else
            (case parse_nat (c # cs) of None \<Rightarrow> Inl ValueError | Some n \<Rightarrow> Inr (int n)))"

subsection \<open>The module namespace\<close>

text \<open>
  What the names of the module are bound to, as far as a call can tell them apart: the
  eight device classes, the base class, the two exception classes, the factory itself, and
  everything else (the imported modules, \<open>datetime\<close> and the typing aliases, the version
  constant, the attributes every module has), none of which can be called successfully
  with the arguments the factory makes.
\<close>

datatype global_obj =
  GClass device_class | GDevice | GNumericError | GErrorMessage | GCreateClient | GOther

definition module_globals :: "(string \<times> global_obj) list" where
  "module_globals =
     [(''Switch'', GClass Switch), (''SafetyMonitor'', GClass SafetyMonitor),
      (''Dome'', GClass Dome), (''Camera'', GClass Camera),
      (''FilterWheel'', GClass FilterWheel), (''Telescope'', GClass Telescope),
      (''Rotator'', GClass Rotator), (''Focuser'', GClass Focuser),
      (''Device'', GDevice), (''NumericError'', GNumericError),
      (''ErrorMessage'', GErrorMessage), (''CreateClient'', GCreateClient),
      (''datetime'', GOther), (''Optional'', GOther), (''Union'', GOther), (''List'', GOther),
      (''Dict'', GOther), (''Mapping'', GOther), (''Any'', GOther), (''dateutil'', GOther),
      (''requests'', GOther), (''DEFAULT_API_VERSION'', GOther),
      (''__name__'', GOther), (''__doc__'', GOther), (''__package__'', GOther),
      (''__loader__'', GOther), (''__spec__'', GOther), (''__file__'', GOther),
      (''__cached__'', GOther), (''__builtins__'', GOther)]"

text \<open>
  Calling a global with the positional arguments the factory makes (none, a string, or a
  string and an int). A device class needs the address and the number and takes the
  scheme and the version from its defaults; \<open>ErrorMessage\<close> takes one argument,
  \<open>NumericError\<close> two; everything else refuses the call.
\<close>

definition instantiate :: "(pyval \<Rightarrow> string) \<Rightarrow> global_obj \<Rightarrow> pyval list \<Rightarrow> exception + pyobject" where
  "instantiate sf g args =
     (case (g, args) of
        (GClass cls, [PStr a, PInt n]) \<Rightarrow>
          (case facade_init sf cls a n ''http'' DEFAULT_API_VERSION of
             Inl e \<Rightarrow> Inl e
           | Inr d \<Rightarrow> Inr (Instance cls d))
      | (GErrorMessage, [PStr v]) \<Rightarrow> Inr (ExceptionObject (ErrorMessage_init v))
      | (GNumericError, [a, b]) \<Rightarrow>
          (case NumericError_init sf a b of
             Inl e \<Rightarrow> Inl e
           | Inr x \<Rightarrow> Inr (ExceptionObject x))
      | _ \<Rightarrow> Inl TypeError)"

text \<open>
  When the name is \<open>CreateClient\<close> itself and one argument follows, the factory runs
  again on that argument. It is a piece of the split descriptor and holds no \<open>/\<close>, so the
  inner run looks that one name up and calls it with no argument.
\<close>

definition call_global :: "(pyval \<Rightarrow> string) \<Rightarrow> global_obj \<Rightarrow> pyval list \<Rightarrow> exception + pyobject" where
  "call_global sf g args =
     (case (g, args) of
        (GCreateClient, [PStr s]) \<Rightarrow>
          (case map_of module_globals s of
             None \<Rightarrow> Inl (KeyError s)
           | Some g' \<Rightarrow> instantiate sf g' [])
      | _ \<Rightarrow> instantiate sf g args)"

text \<open>\<open>zip((str, str, int), parts)\<close>: at most three pieces are converted, the third by
  \<open>int\<close>; further pieces are dropped.\<close>

fun devname_of :: "string list \<Rightarrow> exception + pyval list" where
  "devname_of [] = Inr []"
| "devname_of [a] = Inr [PStr a]"
| "devname_of [a, b] = Inr [PStr a, PStr b]"
| "devname_of (a # b # c # _) =
     (case py_int c of Inl e \<Rightarrow> Inl e | Inr n \<Rightarrow> Inr [PStr a, PStr b, PInt n])"

definition CreateClient :: "(pyval \<Rightarrow> string) \<Rightarrow> string \<Rightarrow> exception + pyobject" where
  "CreateClient sf name =
     (case devname_of (split_sep CHR ''/'' name) of
        Inl e \<Rightarrow> Inl e
      | Inr devname \<Rightarrow>
          (case devname of
             PStr k # args \<Rightarrow>
               (case map_of module_globals k of
                  None \<Rightarrow> Inl (KeyError k)
                | Some g \<Rightarrow> call_global sf g args)
           | _ \<Rightarrow> Inl IndexError))"

section \<open>Fixtures\<close>

text \<open>
  A server that answers every request with the same response and has no state, a
  rendering for the values whose \<open>str\<close> is left open, and a switch, a telescope and an
  empty network to run the operations on.
\<close>

definition mock_server :: "response \<Rightarrow> unit transport" where
  "mock_server r rq s = (Inr r, s)"

definition opaque_str :: "pyval \<Rightarrow> string" where
  "opaque_str v = ''<object>''"

definition switch0 :: device where
  "switch0 =
     \<lparr>address = ''10.0.0.5'', device_type = ''switch'', device_number = 0, api_version = 1,
      base_url = ''http://10.0.0.5/api/v1/switch/0''\<rparr>"

definition telescope0 :: device where
  "telescope0 =
     \<lparr>address = ''10.0.0.5'', device_type = ''telescope'', device_number = 0, api_version = 1,
      base_url = ''http://10.0.0.5/api/v1/telescope/0''\<rparr>"

definition net0 :: "unit net" where
  "net0 = \<lparr>remote = (), sent = []\<rparr>"

text \<open>The request a read, and a write, of attribute \<open>a\<close> with keyword arguments \<open>kw\<close>
  is expected to issue.\<close>

abbreviation GET_request :: "device \<Rightarrow> string \<Rightarrow> (string \<times> pyval) list \<Rightarrow> request" where
  "GET_request self a kw \<equiv>
     \<lparr>req_method = GET, req_url = base_url self @ ''/'' @ a, req_params = None, req_data = Some kw\<rparr>"

abbreviation PUT_request :: "device \<Rightarrow> string \<Rightarrow> (string \<times> pyval) list \<Rightarrow> request" where
  "PUT_request self a kw \<equiv>
     \<lparr>req_method = PUT, req_url = base_url self @ ''/'' @ a, req_params = None, req_data = Some kw\<rparr>"

section \<open>Properties\<close>

subsection \<open>Formatting and parsing\<close>

lemma prepend_Inr [simp]: "prepend s (Inr t) = Inr (s @ t)"
  by (simp add: prepend_def)

lemma prepend_Inl [simp]: "prepend s (Inl e) = Inl e"
  by (simp add: prepend_def)

lemma base_url_format:
  "py_format sf ''%s://%s/api/v%d/%s/%d'' [PStr p, PStr a, PInt v, PStr t, PInt n]
     = Inr (p @ ''://'' @ a @ ''/api/v'' @ int_str v @ ''/'' @ t @ ''/'' @ int_str n)"
  by (simp add: py_format.simps percent_s_def percent_d_def)

lemma digit_char_code: "d < 10 \<Longrightarrow> (of_char (digit_char d) :: nat) = 48 + d"
  by (simp add: digit_char_def)

lemma is_digit_digit_char: "d < 10 \<Longrightarrow> is_digit (digit_char d)"
  by (simp add: is_digit_def digit_char_code)

lemma digit_val_digit_char: "d < 10 \<Longrightarrow> digit_val (digit_char d) = d"
  by (simp add: digit_val_def digit_char_code)

lemma nat_digits_all_digits: "c \<in> set (nat_digits n) \<Longrightarrow> is_digit c"
proof (induction n arbitrary: c rule: nat_digits.induct)
  case (1 n)
  show ?case
  proof (cases "n < 10")
    case True
    with "1.prems" show ?thesis
      by (simp add: nat_digits.simps [of n] is_digit_digit_char)
  next
    case False
    with "1.prems" have "c \<in> set (nat_digits (n div 10)) \<or> c = digit_char (n mod 10)"
      by (auto simp: nat_digits.simps [of n])
    then show ?thesis
      using "1.IH" [OF False] by (auto simp: is_digit_digit_char)
  qed
qed

lemma nat_digits_nonempty: "nat_digits n \<noteq> []"
  by (simp add: nat_digits.simps [of n])

lemma parse_rest_digits:
  "\<forall>c\<in>set ds. is_digit c \<Longrightarrow>
   parse_rest acc ds = Some (foldl (\<lambda>a c. 10 * a + digit_val c) acc ds)"
proof (induction acc ds rule: parse_rest.induct)
  case (1 acc)
  show ?case by simp
next
  case (2 acc c)
  then show ?case by simp
next
  case (3 acc c d cs)
  then show ?case by simp
qed

lemma foldl_nat_digits:
  "foldl (\<lambda>a c. 10 * a + digit_val c) acc (nat_digits n) = acc * 10 ^ length (nat_digits n) + n"
proof (induction n arbitrary: acc rule: nat_digits.induct)
  case (1 n)
  show ?case
  proof (cases "n < 10")
    case True
    then show ?thesis by (simp add: nat_digits.simps [of n] digit_val_digit_char)
  next
    case False
    then show ?thesis
      using "1.IH" [OF False, of acc]
      by (simp add: nat_digits.simps [of n] digit_val_digit_char algebra_simps)
  qed
qed

lemma parse_nat_nat_digits: "parse_nat (nat_digits n) = Some n"
proof -
  obtain c cs where e: "nat_digits n = c # cs"
    using nat_digits_nonempty [of n] by (cases "nat_digits n") auto
  have d: "\<forall>x\<in>set (c # cs). is_digit x"
    using nat_digits_all_digits [of _ n] e by auto
  have "foldl (\<lambda>a c. 10 * a + digit_val c) 0 (c # cs) = n"
    using foldl_nat_digits [of 0 n] e by simp
  then have "foldl (\<lambda>a c. 10 * a + digit_val c) (digit_val c) cs = n"
    by simp
  with d show ?thesis
    by (simp add: parse_nat_def e parse_rest_digits)
qed

lemma not_space_digit: "is_digit c \<Longrightarrow> \<not> is_space c"
  by (auto simp: is_digit_def is_space_def Let_def)

lemma strip_id:
  assumes "s \<noteq> []" "\<not> is_space (hd s)" "\<not> is_space (last s)"
  shows "strip s = s"
proof -
  have a: "dropWhile is_space s = s"
    using assms by (cases s) auto
  obtain x xs where r: "rev s = x # xs"
    using assms(1) by (cases "rev s") auto
  have "hd (rev s) = last s"
    using assms(1) by (simp add: hd_rev)
  then have "\<not> is_space x"
    using assms(3) r by simp
  then have b: "dropWhile is_space (rev s) = rev s"
    by (simp add: r)
  show ?thesis by (simp add: strip_def a b)
qed

lemma strip_nat_digits: "strip (nat_digits n) = nat_digits n"
proof (rule strip_id)
  show "nat_digits n \<noteq> []" by (rule nat_digits_nonempty)
  show "\<not> is_space (hd (nat_digits n))"
    using nat_digits_nonempty [of n] nat_digits_all_digits [of "hd (nat_digits n)" n]
    by (simp add: not_space_digit)
  show "\<not> is_space (last (nat_digits n))"
    using nat_digits_nonempty [of n] nat_digits_all_digits [of "last (nat_digits n)" n]
    by (simp add: not_space_digit)
qed

lemma strip_minus_nat_digits: "strip (CHR ''-'' # nat_digits n) = CHR ''-'' # nat_digits n"
proof (rule strip_id)
  show "CHR ''-'' # nat_digits n \<noteq> []" by simp
  show "\<not> is_space (hd (CHR ''-'' # nat_digits n))"
    by (simp add: is_space_def)
  show "\<not> is_space (last (CHR ''-'' # nat_digits n))"
    using nat_digits_nonempty [of n] nat_digits_all_digits [of "last (nat_digits n)" n]
    by (simp add: not_space_digit)
qed

lemma digit_not_sign: "is_digit c \<Longrightarrow> c \<noteq> CHR ''-'' \<and> c \<noteq> CHR ''+''"
  by (auto simp: is_digit_def)

lemma py_int_int_str: "py_int (int_str i) = Inr i"
proof (cases "i < 0")
  case True
  then show ?thesis
    by (simp add: py_int_def int_str_def strip_minus_nat_digits parse_nat_nat_digits)
next
  case False
  obtain c cs where e: "nat_digits (nat i) = c # cs"
    using nat_digits_nonempty [of "nat i"] by (cases "nat_digits (nat i)") auto
  have "is_digit c"
    using nat_digits_all_digits [of c "nat i"] e by simp
  then have "c \<noteq> CHR ''-''" "c \<noteq> CHR ''+''"
    using digit_not_sign by auto
  moreover have "parse_nat (c # cs) = Some (nat i)"
    using parse_nat_nat_digits [of "nat i"] e by simp
  moreover have "strip (int_str i) = c # cs"
    using False strip_nat_digits [of "nat i"] e by (simp add: int_str_def)
  ultimately show ?thesis
    using False by (simp add: py_int_def)
qed

lemma int_str_chars: "c \<in> set (int_str i) \<Longrightarrow> is_digit c \<or> c = CHR ''-''"
  by (auto simp: int_str_def dest: nat_digits_all_digits split: if_splits)

lemma slash_not_in_int_str: "CHR ''/'' \<notin> set (int_str i)"
  using int_str_chars [of "CHR ''/''" i] by (auto simp: is_digit_def)

lemma split_sep_single: "sep \<notin> set s \<Longrightarrow> split_sep sep s = [s]"
  by (induction s) auto

lemma split_sep_append:
  "sep \<notin> set s \<Longrightarrow> split_sep sep (s @ sep # t) = s # split_sep sep t"
  by (induction s) auto

lemma int_str_0: "int_str 0 = ''0''"
  by code_simp

lemma int_str_1: "int_str 1 = ''1''"
  by code_simp


lemma isoformat_new_year:
  "isoformat \<lparr>year = 2024, month = 1, day = 1, hour = 0, minute = 0, second = 0,
              microsecond = 0, utcoffset = None\<rparr> = ''2024-01-01T00:00:00''"
  by code_simp

lemma split_sep_nonempty: "split_sep sep s \<noteq> []"
  by (induction s) (auto split: list.splits)

lemma class_name_no_slash: "CHR ''/'' \<notin> set (class_name cls)"
  by (cases cls) simp_all

lemma category_no_slash: "CHR ''/'' \<notin> set (category cls)"
  by (cases cls) simp_all

lemma globals_class_name: "map_of module_globals (class_name cls) = Some (GClass cls)"
  by (cases cls) (simp_all add: module_globals_def)

lemma globals_category: "map_of module_globals (category cls) = None"
  by (cases cls) (simp_all add: module_globals_def)

lemma split_descriptor:
  "CHR ''/'' \<notin> set k \<Longrightarrow> CHR ''/'' \<notin> set addr \<Longrightarrow>
   split_sep CHR ''/'' (k @ CHR ''/'' # addr @ CHR ''/'' # int_str n) = [k, addr, int_str n]"
  by (simp add: split_sep_append split_sep_single slash_not_in_int_str)

lemma CreateClient_unbound:
  assumes "map_of module_globals (hd (split_sep CHR ''/'' name)) = None"
  shows "CreateClient sf name = Inl (KeyError (hd (split_sep CHR ''/'' name)))
       \<or> CreateClient sf name = Inl ValueError"
proof (cases "split_sep CHR ''/'' name")
  case Nil
  then show ?thesis by (simp add: split_sep_nonempty)
next
  case (Cons a r1)
  note c1 = Cons
  show ?thesis
  proof (cases r1)
    case Nil
    with c1 assms show ?thesis by (simp add: CreateClient_def)
  next
    case (Cons b r2)
    note c2 = Cons
    show ?thesis
    proof (cases r2)
      case Nil
      with c1 c2 assms show ?thesis by (simp add: CreateClient_def)
    next
      case (Cons c r3)
      with c1 c2 assms show ?thesis
        by (cases "py_int c") (auto simp: CreateClient_def py_int_def split: list.splits option.splits if_splits)
    qed
  qed
qed

subsection \<open>The request executor unfolded\<close>

lemma url_format: "py_format sf ''%s/%s'' [PStr b, PStr a] = Inr (b @ ''/'' @ a)"
  by (simp add: py_format.simps percent_s_def)

lemma Device_get_unfold:
  "Device_get tr sf self a kw w =
     (case tr (GET_request self a kw) (remote w) of
        (Inl e, s') \<Rightarrow> (Inl e, \<lparr>remote = s', sent = sent w @ [GET_request self a kw]\<rparr>)
      | (Inr r, s') \<Rightarrow>
          (case Device_check_error sf r of
             Inl e \<Rightarrow> Inl e
           | Inr _ \<Rightarrow> (case response_json r of Inl e \<Rightarrow> Inl e | Inr j \<Rightarrow> subscript j ''Value''),
           \<lparr>remote = s', sent = sent w @ [GET_request self a kw]\<rparr>))"
  by (simp add: Device_get_def url_format requests_get_def requests_request_def
           split: prod.splits sum.splits)

lemma Device_put_unfold:
  "Device_put tr sf self a kw w =
     (case tr (PUT_request self a kw) (remote w) of
        (Inl e, s') \<Rightarrow> (Inl e, \<lparr>remote = s', sent = sent w @ [PUT_request self a kw]\<rparr>)
      | (Inr r, s') \<Rightarrow>
          (case Device_check_error sf r of
             Inl e \<Rightarrow> Inl e
           | Inr _ \<Rightarrow> response_json r,
           \<lparr>remote = s', sent = sent w @ [PUT_request self a kw]\<rparr>))"
  by (simp add: Device_put_def url_format requests_put_def requests_request_def
           split: prod.splits sum.splits)



lemma check_error_ok:
  "status_code r = 200 \<Longrightarrow> resp_json r = Some j \<Longrightarrow>
   subscript j ''ErrorNumber'' = Inr e \<Longrightarrow> \<not> ne_zero e \<Longrightarrow>
   Device_check_error sf r = Inr ()"
  by (simp add: Device_check_error_def response_json_def)

lemma check_error_other:
  "status_code r \<noteq> 200 \<Longrightarrow> status_code r \<noteq> 400 \<Longrightarrow> status_code r \<noteq> 500 \<Longrightarrow>
   Device_check_error sf r = Inr ()"
  by (simp add: Device_check_error_def)

subsection \<open>The claims\<close>

text \<open>
  C1. The base address computed by the constructor of a device is exactly
  scheme, \<open>://\<close>, address, \<open>/api/v\<close>, the version in decimal, \<open>/\<close>, the category,
  \<open>/\<close>, the instance number in decimal; the constructor never fails on strings and
  integers.
\<close>

theorem Device_init_base_url:
  "Device_init sf addr dtype dnum protocall version =
     Inr \<lparr>address = addr, device_type = dtype, device_number = dnum, api_version = version,
          base_url = protocall @ ''://'' @ addr @ ''/api/v'' @ int_str version @ ''/''
                       @ dtype @ ''/'' @ int_str dnum\<rparr>"
  by (simp add: Device_init_def base_url_format)

theorem Device_init_base_url_witness:
  "Device_init opaque_str ''10.0.0.5'' ''telescope'' 0 ''http'' 1 = Inr telescope0"
  using Device_init_base_url [of opaque_str "''10.0.0.5''" "''telescope''" 0 "''http''" 1]
  by (simp add: int_str_0 int_str_1 telescope0_def)

text \<open>
  C2. When the server answers a read or a write with status 400 or 500, the operation
  raises \<open>ErrorMessage\<close>, whose only attribute is the message, and the message is the
  body text of the response, unchanged.
\<close>

theorem transport_failure:
  "status_code r = 400 \<or> status_code r = 500 \<Longrightarrow>
     (tr (GET_request self a kw) (remote w) = (Inr r, s') \<longrightarrow>
        fst (Device_get tr sf self a kw w) = Inl (ErrorMessage (resp_text r)))
   \<and> (tr (PUT_request self a kw) (remote w) = (Inr r, s') \<longrightarrow>
        fst (Device_put tr sf self a kw w) = Inl (ErrorMessage (resp_text r)))"
  by (auto simp: Device_get_unfold Device_put_unfold Device_check_error_def ErrorMessage_init_def)

theorem transport_failure_witness:
  "fst (Device_get (mock_server \<lparr>status_code = 400, resp_text = ''Bad parameter'', resp_json = None\<rparr>)
          opaque_str switch0 ''connected'' [] net0) = Inl (ErrorMessage ''Bad parameter'')
   \<and> fst (Device_put (mock_server \<lparr>status_code = 400, resp_text = ''Bad parameter'', resp_json = None\<rparr>)
          opaque_str switch0 ''connected'' [] net0) = Inl (ErrorMessage ''Bad parameter'')"
  using transport_failure
    [where r = "\<lparr>status_code = 400, resp_text = ''Bad parameter'', resp_json = None\<rparr>"
       and tr = "mock_server \<lparr>status_code = 400, resp_text = ''Bad parameter'', resp_json = None\<rparr>"
       and self = switch0 and a = "''connected''" and kw = "[]" and w = net0 and s' = "()"
       and sf = opaque_str]
  by (simp add: mock_server_def)




text \<open>
  C4. When the server answers a read with status 200 and an \<open>ErrorNumber\<close> equal to
  zero, the read returns the \<open>Value\<close> field of the decoded body as it is.
\<close>

theorem read_value:
  "status_code r = 200 \<Longrightarrow> resp_json r = Some j \<Longrightarrow>
   subscript j ''ErrorNumber'' = Inr e \<Longrightarrow> \<not> ne_zero e \<Longrightarrow>
   subscript j ''Value'' = Inr v \<Longrightarrow>
   tr (GET_request self a kw) (remote w) = (Inr r, s') \<Longrightarrow>
   fst (Device_get tr sf self a kw w) = Inr v"
  by (simp add: Device_get_unfold check_error_ok response_json_def)

theorem read_value_witness:
  "fst (Device_get
         (mock_server \<lparr>status_code = 200, resp_text = [],
            resp_json = Some (PDict [(''ErrorNumber'', PInt 0), (''ErrorMessage'', PStr []),
                                     (''Value'', PFloat (Finite False 25 (- 1)))])\<rparr>)
         opaque_str telescope0 ''rightascension'' [] net0)
     = Inr (PFloat (Finite False 25 (- 1)))"
  using read_value
    [where r = "\<lparr>status_code = 200, resp_text = [],
            resp_json = Some (PDict [(''ErrorNumber'', PInt 0), (''ErrorMessage'', PStr []),
                                     (''Value'', PFloat (Finite False 25 (- 1)))])\<rparr>"
       and j = "PDict [(''ErrorNumber'', PInt 0), (''ErrorMessage'', PStr []),
                       (''Value'', PFloat (Finite False 25 (- 1)))]"
       and e = "PInt 0" and v = "PFloat (Finite False 25 (- 1))"
       and tr = "mock_server \<lparr>status_code = 200, resp_text = [],
            resp_json = Some (PDict [(''ErrorNumber'', PInt 0), (''ErrorMessage'', PStr []),
                                     (''Value'', PFloat (Finite False 25 (- 1)))])\<rparr>"
       and self = telescope0 and a = "''rightascension''" and kw = "[]" and w = net0
       and s' = "()" and sf = opaque_str]
  by (simp add: mock_server_def subscript_def ne_zero_def)

text \<open>
  C5. A status other than 200, 400 and 500 raises no failure in the classification: the
  read goes on to return the \<open>Value\<close> field of the decoded body and the write the decoded
  body, whatever \<open>ErrorNumber\<close> says.
\<close>

theorem other_status:
  "status_code r \<noteq> 200 \<Longrightarrow> status_code r \<noteq> 400 \<Longrightarrow> status_code r \<noteq> 500 \<Longrightarrow>
     Device_check_error sf r = Inr ()
   \<and> (tr (GET_request self a kw) (remote w) = (Inr r, s') \<longrightarrow>
        fst (Device_get tr sf self a kw w) =
          (case response_json r of Inl e \<Rightarrow> Inl e | Inr j \<Rightarrow> subscript j ''Value''))
   \<and> (tr (PUT_request self a kw) (remote w) = (Inr r, s') \<longrightarrow>
        fst (Device_put tr sf self a kw w) = response_json r)"
  by (simp add: Device_get_unfold Device_put_unfold check_error_other)

theorem other_status_witness:
  "Device_check_error opaque_str
     \<lparr>status_code = 404, resp_text = [],
      resp_json = Some (PDict [(''ErrorNumber'', PInt 1025), (''ErrorMessage'', PStr ''no''),
                               (''Value'', PBool True)])\<rparr> = Inr ()
   \<and> fst (Device_get
         (mock_server \<lparr>status_code = 404, resp_text = [],
            resp_json = Some (PDict [(''ErrorNumber'', PInt 1025), (''ErrorMessage'', PStr ''no''),
                                     (''Value'', PBool True)])\<rparr>)
         opaque_str switch0 ''getswitch'' [(''Id'', PInt 3)] net0) = Inr (PBool True)"
  using other_status
    [where r = "\<lparr>status_code = 404, resp_text = [],
            resp_json = Some (PDict [(''ErrorNumber'', PInt 1025), (''ErrorMessage'', PStr ''no''),
                                     (''Value'', PBool True)])\<rparr>"
       and tr = "mock_server \<lparr>status_code = 404, resp_text = [],
            resp_json = Some (PDict [(''ErrorNumber'', PInt 1025), (''ErrorMessage'', PStr ''no''),
                                     (''Value'', PBool True)])\<rparr>"
       and self = switch0 and a = "''getswitch''" and kw = "[(''Id'', PInt 3)]" and w = net0
       and s' = "()" and sf = opaque_str]
  by (simp add: mock_server_def subscript_def response_json_def)

text \<open>
  C6, as amended. The factory looks the first piece of the descriptor up among the names
  of the module. For the name of a device class, an address without \<open>/\<close> and a decimal
  instance number it returns an instance of that class with the base address
  \<open>http://address/api/v1/category/number\<close>. The lower-case category in the first
  place is a KeyError, and so is every first piece that is not a name of the module (unless
  the third piece is no integer, which is a ValueError before the lookup).
\<close>

theorem CreateClient_by_class_name:
  "CHR ''/'' \<notin> set addr \<Longrightarrow>
     CreateClient sf (class_name cls @ ''/'' @ addr @ ''/'' @ int_str n)
       = Inr (Instance cls
               \<lparr>address = addr, device_type = category cls, device_number = n, api_version = 1,
                base_url = ''http://'' @ addr @ ''/api/v1/'' @ category cls @ ''/'' @ int_str n\<rparr>)
   \<and> CreateClient sf (category cls @ ''/'' @ addr @ ''/'' @ int_str n)
       = Inl (KeyError (category cls))
   \<and> (\<forall>name. map_of module_globals (hd (split_sep CHR ''/'' name)) = None \<longrightarrow>
         CreateClient sf name = Inl (KeyError (hd (split_sep CHR ''/'' name)))
         \<or> CreateClient sf name = Inl ValueError)"
proof (intro conjI allI impI)
  assume a: "CHR ''/'' \<notin> set addr"
  show "CreateClient sf (class_name cls @ ''/'' @ addr @ ''/'' @ int_str n)
       = Inr (Instance cls
               \<lparr>address = addr, device_type = category cls, device_number = n, api_version = 1,
                base_url = ''http://'' @ addr @ ''/api/v1/'' @ category cls @ ''/'' @ int_str n\<rparr>)"
    by (simp add: CreateClient_def split_descriptor [OF class_name_no_slash a] py_int_int_str
          globals_class_name call_global_def instantiate_def facade_init_def Device_init_def
          base_url_format DEFAULT_API_VERSION_def int_str_1)
  show "CreateClient sf (category cls @ ''/'' @ addr @ ''/'' @ int_str n)
       = Inl (KeyError (category cls))"
    by (simp add: CreateClient_def split_descriptor [OF category_no_slash a] py_int_int_str
          globals_category)
  show "CreateClient sf name = Inl (KeyError (hd (split_sep CHR ''/'' name)))
         \<or> CreateClient sf name = Inl ValueError"
    if "map_of module_globals (hd (split_sep CHR ''/'' name)) = None" for name
    using CreateClient_unbound [OF that] .
qed

theorem CreateClient_by_class_name_witness:
  "CreateClient opaque_str ''Telescope/10.0.0.5/0'' = Inr (Instance Telescope telescope0)
   \<and> (CreateClient opaque_str ''dome'' = Inl (KeyError ''dome'')
        \<or> CreateClient opaque_str ''dome'' = Inl ValueError)"
proof -
  have s: "CHR ''/'' \<notin> set ''10.0.0.5''" by simp
  note t = CreateClient_by_class_name [OF s, of opaque_str Telescope 0]
  have h: "hd (split_sep CHR ''/'' ''dome'') = ''dome''" by simp
  have u: "map_of module_globals (hd (split_sep CHR ''/'' ''dome'')) = None"
    by (simp add: module_globals_def)
  have "CreateClient opaque_str ''dome'' = Inl (KeyError (hd (split_sep CHR ''/'' ''dome'')))
        \<or> CreateClient opaque_str ''dome'' = Inl ValueError"
    using t u by blast
  then have b: "CreateClient opaque_str ''dome'' = Inl (KeyError ''dome'')
        \<or> CreateClient opaque_str ''dome'' = Inl ValueError"
    by (simp only: h)
  have a: "CreateClient opaque_str ''Telescope/10.0.0.5/0'' = Inr (Instance Telescope telescope0)"
    using t by (simp add: int_str_0 telescope0_def)
  from a b show ?thesis by (rule conjI)
qed

text \<open>
  The descriptor \<open>telescope/10.0.0.5/0\<close> of the specification does not produce a
  telescope: the module binds the class to \<open>Telescope\<close>.
\<close>

theorem CreateClient_lower_case_counterexample:
  "CreateClient opaque_str ''telescope/10.0.0.5/0'' = Inl (KeyError ''telescope'')"
  by code_simp

text \<open>
  C7. The setter of the telescope's UTC clock sends a string as it is and a datetime as
  its \<open>isoformat\<close> string, in one PUT of \<open>utcdate\<close>; for a value of any other type it
  raises TypeError and leaves the network untouched.
\<close>

theorem UTCDate_set_shapes:
  "(UTCDate = PStr s \<longrightarrow>
      sent (snd (Telescope_UTCDate_set tr sf self UTCDate w))
        = sent w @ [PUT_request self ''utcdate'' [(''UTCDate'', PStr s)]])
   \<and> (UTCDate = PDatetime d \<longrightarrow>
      sent (snd (Telescope_UTCDate_set tr sf self UTCDate w))
        = sent w @ [PUT_request self ''utcdate'' [(''UTCDate'', PStr (isoformat d))]])
   \<and> ((\<forall>x. UTCDate \<noteq> PStr x) \<and> (\<forall>x. UTCDate \<noteq> PDatetime x) \<longrightarrow>
      Telescope_UTCDate_set tr sf self UTCDate w = (Inl TypeError, w))"
proof (intro conjI impI)
  assume "UTCDate = PStr s"
  then show "sent (snd (Telescope_UTCDate_set tr sf self UTCDate w))
        = sent w @ [PUT_request self ''utcdate'' [(''UTCDate'', PStr s)]]"
    by (auto simp: Telescope_UTCDate_set_def Device_put_unfold split: prod.splits sum.splits)
next
  assume "UTCDate = PDatetime d"
  then show "sent (snd (Telescope_UTCDate_set tr sf self UTCDate w))
        = sent w @ [PUT_request self ''utcdate'' [(''UTCDate'', PStr (isoformat d))]]"
    by (auto simp: Telescope_UTCDate_set_def Device_put_unfold split: prod.splits sum.splits)
next
  assume "(\<forall>x. UTCDate \<noteq> PStr x) \<and> (\<forall>x. UTCDate \<noteq> PDatetime x)"
  then show "Telescope_UTCDate_set tr sf self UTCDate w = (Inl TypeError, w)"
    by (cases UTCDate) (simp_all add: Telescope_UTCDate_set_def)
qed

theorem UTCDate_set_shapes_witness:
  "sent (snd (Telescope_UTCDate_set
      (mock_server \<lparr>status_code = 200, resp_text = [],
         resp_json = Some (PDict [(''ErrorNumber'', PInt 0)])\<rparr>)
      opaque_str telescope0
      (PDatetime \<lparr>year = 2024, month = 1, day = 1, hour = 0, minute = 0, second = 0,
                  microsecond = 0, utcoffset = None\<rparr>) net0))
     = [\<lparr>req_method = PUT, req_url = ''http://10.0.0.5/api/v1/telescope/0/utcdate'',
         req_params = None, req_data = Some [(''UTCDate'', PStr ''2024-01-01T00:00:00'')]\<rparr>]
   \<and> sent (snd (Telescope_UTCDate_set
      (mock_server \<lparr>status_code = 200, resp_text = [],
         resp_json = Some (PDict [(''ErrorNumber'', PInt 0)])\<rparr>)
      opaque_str telescope0 (PStr ''2024-01-01T00:00:00'') net0))
     = [\<lparr>req_method = PUT, req_url = ''http://10.0.0.5/api/v1/telescope/0/utcdate'',
         req_params = None, req_data = Some [(''UTCDate'', PStr ''2024-01-01T00:00:00'')]\<rparr>]
   \<and> Telescope_UTCDate_set
      (mock_server \<lparr>status_code = 200, resp_text = [],
         resp_json = Some (PDict [(''ErrorNumber'', PInt 0)])\<rparr>)
      opaque_str telescope0 (PInt 1704067200) net0 = (Inl TypeError, net0)"
  using
    UTCDate_set_shapes
      [where UTCDate = "PDatetime \<lparr>year = 2024, month = 1, day = 1, hour = 0, minute = 0,
                          second = 0, microsecond = 0, utcoffset = None\<rparr>"
         and d = "\<lparr>year = 2024, month = 1, day = 1, hour = 0, minute = 0,
                          second = 0, microsecond = 0, utcoffset = None\<rparr>"
         and tr = "mock_server \<lparr>status_code = 200, resp_text = [],
                      resp_json = Some (PDict [(''ErrorNumber'', PInt 0)])\<rparr>"
         and sf = opaque_str and self = telescope0 and w = net0]
    UTCDate_set_shapes
      [where UTCDate = "PStr ''2024-01-01T00:00:00''" and s = "''2024-01-01T00:00:00''"
         and tr = "mock_server \<lparr>status_code = 200, resp_text = [],
                      resp_json = Some (PDict [(''ErrorNumber'', PInt 0)])\<rparr>"
         and sf = opaque_str and self = telescope0 and w = net0]
    UTCDate_set_shapes
      [where UTCDate = "PInt 1704067200"
         and tr = "mock_server \<lparr>status_code = 200, resp_text = [],
                      resp_json = Some (PDict [(''ErrorNumber'', PInt 0)])\<rparr>"
         and sf = opaque_str and self = telescope0 and w = net0]
  by (simp add: isoformat_new_year telescope0_def net0_def del: One_nat_def)

text \<open>
  C8, as amended. A read issues one GET to the base address, \<open>/\<close> and the attribute
  name, and hands its keyword arguments to the HTTP library as \<open>data\<close>, exactly as a
  write does with its PUT; neither passes \<open>params\<close>, so the URL carries no query.
\<close>

theorem read_params_in_data:
  "sent (snd (Device_get tr sf self a kw w)) = sent w @ [GET_request self a kw]
   \<and> sent (snd (Device_put tr sf self a kw w)) = sent w @ [PUT_request self a kw]"
  by (auto simp: Device_put_unfold Device_get_unfold split: prod.splits sum.splits)

theorem read_params_in_data_witness:
  "sent (snd (Device_get
      (mock_server \<lparr>status_code = 200, resp_text = [],
         resp_json = Some (PDict [(''ErrorNumber'', PInt 0), (''Value'', PStr ''relay'')])\<rparr>)
      opaque_str switch0 ''getswitchname'' [(''Id'', PInt 1)] net0))
   = [\<lparr>req_method = GET, req_url = ''http://10.0.0.5/api/v1/switch/0/getswitchname'',
       req_params = None, req_data = Some [(''Id'', PInt 1)]\<rparr>]
   \<and> sent (snd (Device_put
      (mock_server \<lparr>status_code = 200, resp_text = [],
         resp_json = Some (PDict [(''ErrorNumber'', PInt 0), (''Value'', PStr ''relay'')])\<rparr>)
      opaque_str switch0 ''getswitchname'' [(''Id'', PInt 1)] net0))
   = [\<lparr>req_method = PUT, req_url = ''http://10.0.0.5/api/v1/switch/0/getswitchname'',
       req_params = None, req_data = Some [(''Id'', PInt 1)]\<rparr>]"
  using read_params_in_data
    [of "mock_server \<lparr>status_code = 200, resp_text = [],
         resp_json = Some (PDict [(''ErrorNumber'', PInt 0), (''Value'', PStr ''relay'')])\<rparr>"
      opaque_str switch0 "''getswitchname''" "[(''Id'', PInt 1)]" net0]
  by (simp add: switch0_def net0_def)

text \<open>
  The read of a switch with \<open>Id = 3\<close> carries the argument as \<open>data\<close>, not in the
  query of the URL.
\<close>

theorem read_query_counterexample:
  "sent (snd (Device_get
      (mock_server \<lparr>status_code = 200, resp_text = [],
         resp_json = Some (PDict [(''ErrorNumber'', PInt 0), (''Value'', PBool True)])\<rparr>)
      opaque_str switch0 ''getswitch'' [(''Id'', PInt 3)] net0))
   = [\<lparr>req_method = GET, req_url = ''http://10.0.0.5/api/v1/switch/0/getswitch'',
       req_params = None, req_data = Some [(''Id'', PInt 3)]\<rparr>]"
  by (simp add: Device_get_unfold mock_server_def switch0_def net0_def)

text \<open>
  C9. A read issued twice, where the server gives the second request the outcome it gave
  the first, returns the same result twice; each of the two reads is a request of its own
  on the network.
\<close>

theorem read_twice:
  "fst (tr (GET_request self a kw) (snd (tr (GET_request self a kw) (remote w))))
     = fst (tr (GET_request self a kw) (remote w)) \<Longrightarrow>
   fst (Device_get tr sf self a kw (snd (Device_get tr sf self a kw w)))
     = fst (Device_get tr sf self a kw w)
   \<and> sent (snd (Device_get tr sf self a kw (snd (Device_get tr sf self a kw w))))
     = sent w @ [GET_request self a kw, GET_request self a kw]"
  by (auto simp: Device_get_unfold split: prod.splits sum.splits)

theorem read_twice_witness:
  "fst (Device_get
         (mock_server \<lparr>status_code = 200, resp_text = [],
            resp_json = Some (PDict [(''ErrorNumber'', PInt 0), (''Value'', PInt 7)])\<rparr>)
         opaque_str switch0 ''maxswitch'' []
         (snd (Device_get
            (mock_server \<lparr>status_code = 200, resp_text = [],
               resp_json = Some (PDict [(''ErrorNumber'', PInt 0), (''Value'', PInt 7)])\<rparr>)
            opaque_str switch0 ''maxswitch'' [] net0)))
     = fst (Device_get
         (mock_server \<lparr>status_code = 200, resp_text = [],
            resp_json = Some (PDict [(''ErrorNumber'', PInt 0), (''Value'', PInt 7)])\<rparr>)
         opaque_str switch0 ''maxswitch'' [] net0)"
  using read_twice
    [where tr = "mock_server \<lparr>status_code = 200, resp_text = [],
            resp_json = Some (PDict [(''ErrorNumber'', PInt 0), (''Value'', PInt 7)])\<rparr>"
       and self = switch0 and a = "''maxswitch''" and kw = "[]" and w = net0 and sf = opaque_str]
  by (simp add: mock_server_def)

text \<open>
  C10. \<open>Description\<close> and \<open>Name\<close> are the same operation: each is one read of the
  attribute \<open>name\<close>, and no attribute \<open>description\<close> is ever requested.
\<close>

theorem Description_is_Name:
  "Description tr sf self w = Name tr sf self w
   \<and> sent (snd (Description tr sf self w)) = sent w @ [GET_request self ''name'' []]"
  by (auto simp: Description_def Name_def Device_get_unfold split: prod.splits sum.splits)

theorem Description_is_Name_witness:
  "Description (mock_server \<lparr>status_code = 200, resp_text = [],
        resp_json = Some (PDict [(''ErrorNumber'', PInt 0), (''Value'', PStr ''Dome A'')])\<rparr>)
      opaque_str switch0 net0
   = Name (mock_server \<lparr>status_code = 200, resp_text = [],
        resp_json = Some (PDict [(''ErrorNumber'', PInt 0), (''Value'', PStr ''Dome A'')])\<rparr>)
      opaque_str switch0 net0
   \<and> sent (snd (Description (mock_server \<lparr>status_code = 200, resp_text = [],
        resp_json = Some (PDict [(''ErrorNumber'', PInt 0), (''Value'', PStr ''Dome A'')])\<rparr>)
      opaque_str switch0 net0))
     = [\<lparr>req_method = GET, req_url = ''http://10.0.0.5/api/v1/switch/0/name'',
         req_params = None, req_data = Some []\<rparr>]"
proof -
  have u: "base_url switch0 @ ''/'' @ ''name'' = ''http://10.0.0.5/api/v1/switch/0/name''"
    by (simp add: switch0_def)
  have e: "sent net0 = []"
    by (simp add: net0_def)
  show ?thesis
    using Description_is_Name
      [of "mock_server \<lparr>status_code = 200, resp_text = [],
          resp_json = Some (PDict [(''ErrorNumber'', PInt 0), (''Value'', PStr ''Dome A'')])\<rparr>"
        opaque_str switch0 net0]
    unfolding u e append_Nil .
qed

end
